theory Spec2Isabelle
  imports Complex_Main
begin

section \<open>Python values, exceptions and the outside world\<close>

text \<open>
  The program is two Python files: \<^verbatim>\<open>ftd.py\<close> (the two submission calls, the polling
  loop and \<^verbatim>\<open>main\<close>) and \<^verbatim>\<open>poll_service.py\<close> (a second copy of the polling loop).
  Everything they do goes through three library calls: \<^verbatim>\<open>requests.post\<close>/\<^verbatim>\<open>requests.get\<close>,
  \<^verbatim>\<open>time.sleep\<close> and \<^verbatim>\<open>print\<close>. The embedding passes an explicit world that
  answers the HTTP requests and records every effect in order.
\<close>

text \<open>
  What \<^verbatim>\<open>response.json()\<close> can return: the Python image of a JSON document. A dict is
  an association list in insertion order; its keys are distinct in Python, so \<open>map_of\<close>
  is the lookup. \<open>PFloat\<close> stands for the finite floats. A string is a list of the
  \<open>char\<close>s of HOL, so \<open>PStr\<close> holds text that the standard output can encode: a
  \<^verbatim>\<open>print\<close> of it does not fail.
\<close>

datatype pyval =
    PNone
  | PBool bool
  | PInt int
  | PFloat real
  | PStr string
  | PList "pyval list"
  | PDict "(string \<times> pyval) list"

text \<open>
  The exceptions that can travel through the code. \<open>CDOError\<close> is the class of
  \<^verbatim>\<open>ftd.py\<close>; \<open>RequestException\<close> stands for \<^verbatim>\<open>requests.exceptions.RequestException\<close>
  and its subclasses; the others are caught by \<^verbatim>\<open>except Exception\<close> only.
\<close>

datatype exn =
    CDOError string
  | RequestException string
  | ValueError string
  | OverflowError string
  | AttributeError string
  | OtherException string

type_synonym 'a result = "exn + 'a"

type_synonym headers = "(string \<times> string) list"

text \<open>
  A \<^verbatim>\<open>requests.Response\<close> as far as the code reads it: \<^verbatim>\<open>status_code\<close>,
  \<^verbatim>\<open>text\<close> (the raw body) and the outcome of \<^verbatim>\<open>json()\<close>, which is the parsed body
  or the exception the decoder raises.
\<close>

record response =
  status_code :: int
  resp_text :: string
  resp_json :: "pyval result"

text \<open>
  A request as the code issues it. The URL of a GET is whatever value \<^verbatim>\<open>main\<close> read
  from the acknowledgement, so it is a \<open>pyval\<close>; the URL of a POST is built by an
  f-string and is a string. The optional third argument of POST is \<^verbatim>\<open>json=payload\<close>.
\<close>

datatype request =
    POST string headers "pyval option"
  | GET pyval headers

text \<open>A piece of an f-string handed to \<^verbatim>\<open>print\<close>: literal text or a formatted value.\<close>

datatype fragment =
    Lit string
  | Val pyval
  | Num int
  | Exn exn

datatype event =
    Request request
  | Sleep int
  | Print "fragment list"

text \<open>
  The world: \<open>remote w n req\<close> is what the HTTP library gives back for the \<open>n\<close>-th
  request of the run (counted from 0) when that request is \<open>req\<close>: a response, or the
  exception it raises. \<open>trace\<close> is the list of effects so far, oldest first.
\<close>

record world =
  remote :: "nat \<Rightarrow> request \<Rightarrow> response result"
  trace :: "event list"

fun is_request :: "event \<Rightarrow> bool" where
  "is_request (Request _) = True"
| "is_request _ = False"

definition sent :: "world \<Rightarrow> nat" where
  "sent w = length (filter is_request (trace w))"

definition emit :: "event \<Rightarrow> world \<Rightarrow> world" where
  "emit e w = w\<lparr>trace := trace w @ [e]\<rparr>"

definition requests_post :: "string \<Rightarrow> headers \<Rightarrow> pyval option \<Rightarrow> world \<Rightarrow> world \<times> response result" where
  "requests_post u h p w = (emit (Request (POST u h p)) w, remote w (sent w) (POST u h p))"

definition requests_get :: "pyval \<Rightarrow> headers \<Rightarrow> world \<Rightarrow> world \<times> response result" where
  "requests_get u h w = (emit (Request (GET u h)) w, remote w (sent w) (GET u h))"

text \<open>
  \<^verbatim>\<open>time.sleep(secs)\<close> for an int: CPython first converts the seconds to a signed
  64-bit count of nanoseconds and raises OverflowError when that does not fit, which is
  when \<open>secs\<close> is outside \<open>-9223372036 .. 9223372036\<close>; then it raises ValueError for a
  negative length; otherwise it sleeps.
\<close>

definition time_sleep :: "int \<Rightarrow> world \<Rightarrow> world \<times> unit result" where
  "time_sleep secs w =
     (if secs < - 9223372036 \<or> 9223372036 < secs
      then (w, Inl (OverflowError ''timestamp too large to convert to C _PyTime_t''))
      else if secs < 0 then (w, Inl (ValueError ''sleep length must be non-negative''))
      else (emit (Sleep secs) w, Inr ()))"

definition py_print :: "fragment list \<Rightarrow> world \<Rightarrow> world" where
  "py_print fs w = emit (Print fs) w"

text \<open>\<^verbatim>\<open>d.get(key)\<close>: the value, None for a missing key, AttributeError on a non-dict.\<close>

fun py_get :: "pyval \<Rightarrow> string \<Rightarrow> pyval result" where
  "py_get (PDict kvs) k = Inr (case map_of kvs k of None \<Rightarrow> PNone | Some v \<Rightarrow> v)"
| "py_get _ k = Inl (AttributeError ''object has no attribute get'')"

text \<open>Truth value testing, as \<^verbatim>\<open>if not polling_url\<close> does it.\<close>

fun truthy :: "pyval \<Rightarrow> bool" where
  "truthy PNone = False"
| "truthy (PBool b) = b"
| "truthy (PInt i) = (i \<noteq> 0)"
| "truthy (PFloat x) = (x \<noteq> 0)"
| "truthy (PStr s) = (s \<noteq> [])"
| "truthy (PList xs) = (xs \<noteq> [])"
| "truthy (PDict kvs) = (kvs \<noteq> [])"

text \<open>\<^verbatim>\<open>str(n)\<close> for an int, used by the f-string of the polling error.\<close>

fun str_nat :: "nat \<Rightarrow> string" where
  "str_nat n = (if n < 10 then [''0123456789'' ! n] else str_nat (n div 10) @ [''0123456789'' ! (n mod 10)])"

declare str_nat.simps [simp del]

definition str_int :: "int \<Rightarrow> string" where
  "str_int i = (if i < 0 then ''-'' @ str_nat (nat (- i)) else str_nat (nat i))"

section \<open>ftd.py\<close>

definition initiate_ftd_onboarding_using_ztp ::
  "string \<Rightarrow> string \<Rightarrow> string \<Rightarrow> string \<Rightarrow> string \<Rightarrow> string \<Rightarrow> world \<Rightarrow> world \<times> pyval result" where
  "initiate_ftd_onboarding_using_ztp base_url token device_name serial_number access_policy_uuid admin_password w =
     (let headers = [(''Authorization'', ''Bearer '' @ token), (''Content-Type'', ''application/json'')];
          payload = PDict [(''name'', PStr device_name),
                           (''serialNumber'', PStr serial_number),
                           (''fmcAccessPolicyUid'', PStr access_policy_uuid),
                           (''licenses'', PList [PStr ''BASE'']),
                           (''adminPassword'', PStr admin_password)];
          (w1, r) = requests_post (base_url @ ''/api/rest/v1/inventory/devices/ftds/ztp'') headers (Some payload) w
      in case r of
           Inl e \<Rightarrow> (w1, Inl e)
         | Inr response \<Rightarrow>
             if status_code response \<noteq> 202
             then (w1, Inl (CDOError (''Failed to create ZTP request: '' @ resp_text response)))
             else (w1, resp_json response))"

definition delete_ftd_device :: "string \<Rightarrow> string \<Rightarrow> string \<Rightarrow> world \<Rightarrow> world \<times> pyval result" where
  "delete_ftd_device base_url token device_uuid w =
     (let headers = [(''Authorization'', ''Bearer '' @ token)];
          (w1, r) = requests_post
                      (base_url @ ''/api/rest/v1/inventory/devices/ftds/cdfmcManaged/'' @ device_uuid @ ''/delete'')
                      headers None w
      in case r of
           Inl e \<Rightarrow> (w1, Inl e)
         | Inr response \<Rightarrow>
             if status_code response \<noteq> 202
             then (w1, Inl (CDOError (''Failed to delete FTD device: '' @ resp_text response)))
             else (w1, resp_json response))"

text \<open>
  The \<^verbatim>\<open>for attempt in range(max_attempts)\<close> loop of \<^verbatim>\<open>poll_transaction_status\<close>, from
  the iteration \<open>attempt\<close> on. The result is the returned value (\<open>PNone\<close> for the final
  \<^verbatim>\<open>return None\<close>) or the exception that left the function.
\<close>

function poll_attempts :: "pyval \<Rightarrow> headers \<Rightarrow> int \<Rightarrow> int \<Rightarrow> int \<Rightarrow> world \<Rightarrow> world \<times> pyval result" where
  "poll_attempts polling_url headers max_attempts delay_seconds attempt w =
     (if attempt < max_attempts then
        (case requests_get polling_url headers w of
           (w1, Inl e) \<Rightarrow> (w1, Inl e)
         | (w1, Inr response) \<Rightarrow>
             if status_code response \<notin> {200, 202}
             then (w1, Inl (CDOError (''Failed to poll status: '' @ resp_text response
                                        @ '' code: '' @ str_int (status_code response))))
             else
               (case resp_json response of
                  Inl e \<Rightarrow> (w1, Inl e)
                | Inr status_data \<Rightarrow>
                    (case py_get status_data ''cdoTransactionStatus'' of
                       Inl e \<Rightarrow> (w1, Inl e)
                     | Inr current_status \<Rightarrow>
                         (let w2 = py_print [Lit ''Current status: '', Val current_status,
                                             Lit '' (Attempt '', Num (attempt + 1), Lit ''/'',
                                             Num max_attempts, Lit '')''] w1
                          in if current_status \<in> {PStr ''DONE'', PStr ''ERROR''}
                             then (w2, Inr status_data)
                             else
                               (case time_sleep delay_seconds w2 of
                                  (w3, Inl e) \<Rightarrow> (w3, Inl e)
                                | (w3, Inr _) \<Rightarrow>
                                    poll_attempts polling_url headers max_attempts delay_seconds
                                      (attempt + 1) w3)))))
      else (w, Inr PNone))"
  by pat_completeness auto
termination
  by (relation "measure (\<lambda>(u, h, m, d, a, w). nat (m - a))") auto

declare poll_attempts.simps [simp del]

definition poll_transaction_status :: "pyval \<Rightarrow> string \<Rightarrow> int \<Rightarrow> int \<Rightarrow> world \<Rightarrow> world \<times> pyval result" where
  "poll_transaction_status polling_url token max_attempts delay_seconds w =
     (let headers = [(''Authorization'', ''Bearer '' @ token), (''Content-Type'', ''application/json'')]
      in poll_attempts polling_url headers max_attempts delay_seconds 0 w)"

text \<open>
  The command line as \<^verbatim>\<open>parse_arguments\<close> hands it over. \<^verbatim>\<open>args.operation\<close> is None
  when no subcommand was given.
\<close>

record args =
  args_operation :: "string option"
  args_url :: string
  args_token :: string
  args_device_name :: string
  args_serial_number :: string
  args_policy_uuid :: string
  args_admin_password :: string
  args_device_uuid :: string
  args_max_attempts :: int
  args_delay :: int

text \<open>The \<^verbatim>\<open>if args.operation == 'onboard': ... else: ...\<close> block of \<^verbatim>\<open>main\<close>.\<close>

definition start_operation :: "args \<Rightarrow> world \<Rightarrow> world \<times> pyval result" where
  "start_operation a w =
     (if args_operation a = Some ''onboard''
      then initiate_ftd_onboarding_using_ztp (args_url a) (args_token a) (args_device_name a)
             (args_serial_number a) (args_policy_uuid a) (args_admin_password a)
             (py_print [Lit ''Initiating FTD onboarding...''] w)
      else delete_ftd_device (args_url a) (args_token a) (args_device_uuid a)
             (py_print [Lit ''Initiating FTD deletion...''] w))"

text \<open>The body of the \<^verbatim>\<open>try\<close> of \<^verbatim>\<open>main\<close>: \<open>Inl e\<close> when the exception \<open>e\<close> leaves it.\<close>

definition main_try :: "args \<Rightarrow> world \<Rightarrow> world \<times> unit result" where
  "main_try a w =
     (case start_operation a w of
        (w1, Inl e) \<Rightarrow> (w1, Inl e)
      | (w1, Inr response) \<Rightarrow>
          (let w2 = py_print [Lit ''Initial response: '', Val response] w1
           in case py_get response ''transactionPollingUrl'' of
                Inl e \<Rightarrow> (w2, Inl e)
              | Inr polling_url \<Rightarrow>
                  if \<not> truthy polling_url
                  then (w2, Inl (CDOError ''No polling URL in response''))
                  else
                    (let w3 = py_print [Lit (CHR 0x0A # ''Starting status polling...'')] w2
                     in case poll_transaction_status polling_url (args_token a)
                               (args_max_attempts a) (args_delay a) w3 of
                          (w4, Inl e) \<Rightarrow> (w4, Inl e)
                        | (w4, Inr final_status) \<Rightarrow>
                            if final_status = PNone
                            then (py_print [Lit ''Polling timed out''] w4, Inr ())
                            else (py_print [Lit (CHR 0x0A # ''Final status: ''), Val final_status] w4,
                                  Inr ()))))"

text \<open>
  \<^verbatim>\<open>main\<close>, after \<^verbatim>\<open>parse_arguments\<close>: the final world and the exit code of the process
  (\<^verbatim>\<open>exit(1)\<close> in the guard and in the three handlers, 0 when \<^verbatim>\<open>main\<close> returns).
\<close>

definition main :: "args \<Rightarrow> world \<Rightarrow> world \<times> int" where
  "main a w =
     (if \<not> (case args_operation a of None \<Rightarrow> False | Some s \<Rightarrow> s \<noteq> [])
      then (py_print [Lit ''Error: No operation specified. Use --help for usage information.''] w, 1)
      else
        (case main_try a w of
           (w', Inr _) \<Rightarrow> (w', 0)
         | (w', Inl e) \<Rightarrow>
             (case e of
                CDOError _ \<Rightarrow> (py_print [Lit ''Error: '', Exn e] w', 1)
              | RequestException _ \<Rightarrow> (py_print [Lit ''Network error: '', Exn e] w', 1)
              | _ \<Rightarrow> (py_print [Lit ''Unexpected error: '', Exn e] w', 1))))"

section \<open>poll\_service.py\<close>

text \<open>The second copy of the polling loop, embedded from its own source.\<close>

function poll_service_poll_attempts ::
  "pyval \<Rightarrow> headers \<Rightarrow> int \<Rightarrow> int \<Rightarrow> int \<Rightarrow> world \<Rightarrow> world \<times> pyval result" where
  "poll_service_poll_attempts polling_url headers max_attempts delay_seconds attempt w =
     (if attempt < max_attempts then
        (case requests_get polling_url headers w of
           (w1, Inl e) \<Rightarrow> (w1, Inl e)
         | (w1, Inr response) \<Rightarrow>
             if status_code response \<notin> {200, 202}
             then (w1, Inl (CDOError (''Failed to poll status: '' @ resp_text response
                                        @ '' code: '' @ str_int (status_code response))))
             else
               (case resp_json response of
                  Inl e \<Rightarrow> (w1, Inl e)
                | Inr status_data \<Rightarrow>
                    (case py_get status_data ''cdoTransactionStatus'' of
                       Inl e \<Rightarrow> (w1, Inl e)
                     | Inr current_status \<Rightarrow>
                         (let w2 = py_print [Lit ''Current status: '', Val current_status,
                                             Lit '' (Attempt '', Num (attempt + 1), Lit ''/'',
                                             Num max_attempts, Lit '')''] w1
                          in if current_status \<in> {PStr ''DONE'', PStr ''ERROR''}
                             then (w2, Inr status_data)
                             else
                               (case time_sleep delay_seconds w2 of
                                  (w3, Inl e) \<Rightarrow> (w3, Inl e)
                                | (w3, Inr _) \<Rightarrow>
                                    poll_service_poll_attempts polling_url headers max_attempts
                                      delay_seconds (attempt + 1) w3)))))
      else (w, Inr PNone))"
  by pat_completeness auto
termination
  by (relation "measure (\<lambda>(u, h, m, d, a, w). nat (m - a))") auto

declare poll_service_poll_attempts.simps [simp del]

definition poll_service_poll_transaction_status ::
  "pyval \<Rightarrow> string \<Rightarrow> int \<Rightarrow> int \<Rightarrow> world \<Rightarrow> world \<times> pyval result" where
  "poll_service_poll_transaction_status polling_url token max_attempts delay_seconds w =
     (let headers = [(''Authorization'', ''Bearer '' @ token), (''Content-Type'', ''application/json'')]
      in poll_service_poll_attempts polling_url headers max_attempts delay_seconds 0 w)"

section \<open>Observations on a run\<close>

text \<open>
  What the claims count. \<open>new_events w w'\<close> is what a call that started in \<open>w\<close> and
  ended in \<open>w'\<close> added to the trace; \<open>get_calls\<close> keeps its GET requests, \<open>delays\<close>
  the lengths of its sleeps. \<open>poll_request\<close> is the GET of the status poller.
\<close>

definition new_events :: "world \<Rightarrow> world \<Rightarrow> event list" where
  "new_events w w' = drop (length (trace w)) (trace w')"

fun get_calls :: "event list \<Rightarrow> request list" where
  "get_calls [] = []"
| "get_calls (Request (GET u h) # es) = GET u h # get_calls es"
| "get_calls (e # es) = get_calls es"

fun delays :: "event list \<Rightarrow> int list" where
  "delays [] = []"
| "delays (Sleep d # es) = d # delays es"
| "delays (e # es) = delays es"

definition poll_request :: "pyval \<Rightarrow> string \<Rightarrow> request" where
  "poll_request polling_url token =
     GET polling_url [(''Authorization'', ''Bearer '' @ token), (''Content-Type'', ''application/json'')]"

text \<open>
  A reply of the HTTP library that the poller reads as non-terminal: a response with
  status code 200 or 202 whose body is an object whose \<^verbatim>\<open>cdoTransactionStatus\<close> is
  missing or is anything but the strings DONE and ERROR. A terminal reply has one of them.
\<close>

definition non_terminal :: "response result \<Rightarrow> bool" where
  "non_terminal reply =
     (case reply of
        Inl _ \<Rightarrow> False
      | Inr r \<Rightarrow>
          status_code r \<in> {200, 202} \<and>
          (case resp_json r of
             Inl _ \<Rightarrow> False
           | Inr body \<Rightarrow>
               (case py_get body ''cdoTransactionStatus'' of
                  Inl _ \<Rightarrow> False
                | Inr s \<Rightarrow> s \<notin> {PStr ''DONE'', PStr ''ERROR''})))"

definition terminal :: "response result \<Rightarrow> bool" where
  "terminal reply =
     (case reply of
        Inl _ \<Rightarrow> False
      | Inr r \<Rightarrow>
          status_code r \<in> {200, 202} \<and>
          (case resp_json r of
             Inl _ \<Rightarrow> False
           | Inr body \<Rightarrow>
               (case py_get body ''cdoTransactionStatus'' of
                  Inl _ \<Rightarrow> False
                | Inr s \<Rightarrow> s \<in> {PStr ''DONE'', PStr ''ERROR''})))"


text \<open>
  \<open>attempt_events\<close> is the trace of a row of attempts that each went on to the next:
  a request, the printed status line, the sleep. \<open>polling_start ack w1\<close> is the world
  in which \<^verbatim>\<open>main\<close> calls the poller, when the submission call ended in \<open>w1\<close> with the
  acknowledgement body \<open>ack\<close>: the two lines \<^verbatim>\<open>main\<close> prints in between are added.
\<close>

definition polling_start :: "pyval \<Rightarrow> world \<Rightarrow> world" where
  "polling_start ack w1 =
     py_print [Lit (CHR 0x0A # ''Starting status polling...'')]
       (py_print [Lit ''Initial response: '', Val ack] w1)"

definition attempt_events :: "request \<Rightarrow> int \<Rightarrow> fragment list list \<Rightarrow> event list" where
  "attempt_events req d fss = concat (map (\<lambda>fs. [Request req, Print fs, Sleep d]) fss)"

section \<open>Concrete worlds for the examples\<close>

text \<open>
  \<open>scripted rs\<close> answers the \<open>n\<close>-th request with \<open>rs ! n\<close> and refuses the connection
  after the script has run out; \<open>json_reply\<close> is a response with a parsed body.
\<close>

definition scripted :: "response result list \<Rightarrow> world" where
  "scripted rs =
     \<lparr>remote = (\<lambda>n req. if n < length rs then rs ! n else Inl (RequestException ''connection refused'')),
      trace = []\<rparr>"

definition always :: "response result \<Rightarrow> world" where
  "always reply = \<lparr>remote = (\<lambda>n req. reply), trace = []\<rparr>"

definition json_reply :: "int \<Rightarrow> pyval \<Rightarrow> response result" where
  "json_reply code body = Inr \<lparr>status_code = code, resp_text = ''(json)'', resp_json = Inr body\<rparr>"

definition status_reply :: "string \<Rightarrow> response result" where
  "status_reply s = json_reply 200 (PDict [(''cdoTransactionStatus'', PStr s)])"

definition onboard_args :: args where
  "onboard_args =
     \<lparr>args_operation = Some ''onboard'', args_url = ''https://edge.staging.cdo.cisco.com'',
      args_token = ''tok'', args_device_name = ''fw1'', args_serial_number = ''ABC123'',
      args_policy_uuid = ''pol-1'', args_admin_password = [], args_device_uuid = [],
      args_max_attempts = 300, args_delay = 10\<rparr>"

definition delete_args :: args where
  "delete_args =
     \<lparr>args_operation = Some ''delete'', args_url = ''https://edge.staging.cdo.cisco.com'',
      args_token = ''tok'', args_device_name = [], args_serial_number = [],
      args_policy_uuid = [], args_admin_password = [], args_device_uuid = ''dev-1'',
      args_max_attempts = 300, args_delay = 10\<rparr>"

section \<open>Basic facts about the world and one iteration of the loop\<close>

lemma trace_emit: "trace (emit e w) = trace w @ [e]"
  by (simp add: emit_def)

lemma remote_emit: "remote (emit e w) = remote w"
  by (simp add: emit_def)

lemma sent_emit: "sent (emit e w) = (if is_request e then Suc (sent w) else sent w)"
  by (simp add: emit_def sent_def)

lemma trace_py_print: "trace (py_print fs w) = trace w @ [Print fs]"
  by (simp add: py_print_def trace_emit)

lemma remote_py_print: "remote (py_print fs w) = remote w"
  by (simp add: py_print_def remote_emit)

lemma sent_py_print: "sent (py_print fs w) = sent w"
  by (simp add: py_print_def sent_emit)

lemma poll_service_eq:
  "poll_service_poll_attempts u h m d a w = poll_attempts u h m d a w"
proof (induction u h m d a w rule: poll_attempts.induct)
  case (1 u h m d a w)
  show ?case
    apply (subst poll_service_poll_attempts.simps)
    apply (subst poll_attempts.simps)
    apply (auto split: prod.splits sum.splits simp: Let_def intro: 1)
    done
qed

lemma poll_attempts_exhausted:
  "\<not> a < m \<Longrightarrow> poll_attempts u h m d a w = (w, Inr PNone)"
  by (subst poll_attempts.simps) simp

lemma poll_attempts_continue:
  assumes "a < m" and "non_terminal (remote w (sent w) (GET u h))"
    and "0 \<le> d \<and> d \<le> 9223372036"
  shows "\<exists>fs. poll_attempts u h m d a w =
           poll_attempts u h m d (a + 1) (emit (Sleep d) (py_print fs (emit (Request (GET u h)) w)))"
  using assms
  apply (subst poll_attempts.simps)
  apply (auto simp: non_terminal_def requests_get_def time_sleep_def Let_def split: sum.splits)
  done


section \<open>Facts about whole runs of the loop\<close>



lemma get_calls_attempt_events:
  "get_calls (attempt_events (GET u h) d fss) = replicate (length fss) (GET u h)"
  by (induction fss) (simp_all add: attempt_events_def)

lemma delays_attempt_events:
  "delays (attempt_events req d fss) = replicate (length fss) d"
  by (induction fss) (simp_all add: attempt_events_def)

lemma attempt_events_snoc:
  "attempt_events req d (fss @ [fs]) = attempt_events req d fss @ [Request req, Print fs, Sleep d]"
  by (simp add: attempt_events_def)

lemma new_events_append: "trace w' = trace w @ es \<Longrightarrow> new_events w w' = es"
  by (simp add: new_events_def)

lemma poll_attempts_skip:
  assumes "n = 0 \<or> (0 \<le> d \<and> d \<le> 9223372036)"
    and "\<forall>i<n. non_terminal (remote w (sent w + i) (GET u h))"
    and "a + int n \<le> m"
  shows "\<exists>w' fss. poll_attempts u h m d a w = poll_attempts u h m d (a + int n) w'
           \<and> remote w' = remote w \<and> sent w' = sent w + n \<and> length fss = n
           \<and> trace w' = trace w @ attempt_events (GET u h) d fss"
  using assms
proof (induction n arbitrary: a w)
  case 0
  show ?case
    by (rule exI [of _ w], rule exI [of _ "[]"]) (simp add: attempt_events_def)
next
  case (Suc n)
  from Suc.prems have first: "non_terminal (remote w (sent w) (GET u h))"
    and lt: "a < m" and d: "0 \<le> d \<and> d \<le> 9223372036"
    by auto
  from poll_attempts_continue [OF lt first d] obtain fs where
    step: "poll_attempts u h m d a w =
           poll_attempts u h m d (a + 1) (emit (Sleep d) (py_print fs (emit (Request (GET u h)) w)))"
    by blast
  let ?w1 = "emit (Sleep d) (py_print fs (emit (Request (GET u h)) w))"
  have r1: "remote ?w1 = remote w"
    by (simp add: remote_emit remote_py_print)
  have s1: "sent ?w1 = Suc (sent w)"
    by (simp add: sent_emit sent_py_print)
  have t1: "trace ?w1 = trace w @ [Request (GET u h), Print fs, Sleep d]"
    by (simp add: trace_emit trace_py_print)
  have rest: "\<forall>i<n. non_terminal (remote ?w1 (sent ?w1 + i) (GET u h))"
  proof (intro allI impI)
    fix i assume "i < n"
    then have "Suc i < Suc n" by simp
    with Suc.prems(2) have "non_terminal (remote w (sent w + Suc i) (GET u h))" by blast
    then show "non_terminal (remote ?w1 (sent ?w1 + i) (GET u h))" by (simp add: r1 s1)
  qed
  have bound: "(a + 1) + int n \<le> m"
    using Suc.prems(3) by simp
  have d': "n = 0 \<or> (0 \<le> d \<and> d \<le> 9223372036)"
    using d by simp
  from Suc.IH [OF d' rest bound] obtain w' fss where
    ih: "poll_attempts u h m d (a + 1) ?w1 = poll_attempts u h m d (a + 1 + int n) w'"
      "remote w' = remote ?w1" "sent w' = sent ?w1 + n" "length fss = n"
      "trace w' = trace ?w1 @ attempt_events (GET u h) d fss"
    by blast
  show ?case
    apply (rule exI [of _ w'], rule exI [of _ "fs # fss"])
    using step ih r1 s1 t1
    apply (simp add: attempt_events_def add.assoc)
    done
qed

lemma poll_attempts_one:
  assumes "a < m"
  shows "(\<exists>w' r es. poll_attempts u h m d a w = (w', r) \<and> trace w' = trace w @ es
            \<and> get_calls es = [GET u h] \<and> delays es = [])
       \<or> (\<exists>fs. poll_attempts u h m d a w =
              poll_attempts u h m d (a + 1) (emit (Sleep d) (py_print fs (emit (Request (GET u h)) w))))"
  using assms
  apply (subst poll_attempts.simps)
  apply (subst (2) poll_attempts.simps)
  apply (auto simp: requests_get_def time_sleep_def Let_def trace_emit trace_py_print split: sum.splits)
  done

lemma poll_attempts_bound:
  "nat (m - a) = n \<Longrightarrow>
   \<exists>es. trace (fst (poll_attempts u h m d a w)) = trace w @ es
      \<and> length (get_calls es) \<le> n \<and> length (delays es) \<le> n"
proof (induction n arbitrary: a w)
  case 0
  then have "\<not> a < m" by simp
  then show ?case by (simp add: poll_attempts_exhausted)
next
  case (Suc n)
  then have lt: "a < m" and n: "nat (m - (a + 1)) = n" by auto
  from poll_attempts_one [OF lt, of u h d w] show ?case
  proof (elim disjE exE conjE)
    fix w' r es
    assume "poll_attempts u h m d a w = (w', r)" "trace w' = trace w @ es"
      "get_calls es = [GET u h]" "delays es = []"
    then show ?thesis by auto
  next
    fix fs
    let ?w1 = "emit (Sleep d) (py_print fs (emit (Request (GET u h)) w))"
    assume step: "poll_attempts u h m d a w = poll_attempts u h m d (a + 1) ?w1"
    from Suc.IH [OF n, of ?w1] obtain es where
      es: "trace (fst (poll_attempts u h m d (a + 1) ?w1)) = trace ?w1 @ es"
        "length (get_calls es) \<le> n" "length (delays es) \<le> n"
      by blast
    show ?thesis
      apply (rule exI [of _ "[Request (GET u h), Print fs, Sleep d] @ es"])
      using step es
      apply (simp add: trace_emit trace_py_print)
      done
  qed
qed

lemma poll_transaction_status_loop:
  "poll_transaction_status polling_url token m d w =
   poll_attempts polling_url [(''Authorization'', ''Bearer '' @ token), (''Content-Type'', ''application/json'')] m d 0 w"
  by (simp add: poll_transaction_status_def)

lemma poll_attempts_bad_status:
  assumes "a < m" and "remote w (sent w) (GET u h) = Inr r" and "status_code r \<notin> {200, 202}"
  shows "poll_attempts u h m d a w =
           (emit (Request (GET u h)) w,
            Inl (CDOError (''Failed to poll status: '' @ resp_text r @ '' code: '' @ str_int (status_code r))))"
  using assms
  by (subst poll_attempts.simps) (simp add: requests_get_def)

lemma poll_attempts_request_fails:
  assumes "a < m" and "remote w (sent w) (GET u h) = Inl e"
  shows "poll_attempts u h m d a w = (emit (Request (GET u h)) w, Inl e)"
  using assms
  by (subst poll_attempts.simps) (simp add: requests_get_def)

lemma attempts_timeout:
  assumes "1 \<le> m" and "0 \<le> d \<and> d \<le> 9223372036"
    and "\<forall>i<nat m. non_terminal (remote w (sent w + i) (GET u h))"
  shows "snd (poll_attempts u h m d 0 w) = Inr PNone
       \<and> get_calls (new_events w (fst (poll_attempts u h m d 0 w))) = replicate (nat m) (GET u h)
       \<and> delays (new_events w (fst (poll_attempts u h m d 0 w))) = replicate (nat m) d"
proof -
  let ?n = "nat m"
  have d: "?n = 0 \<or> (0 \<le> d \<and> d \<le> 9223372036)" using assms(2) by simp
  have le: "0 + int ?n \<le> m" using assms(1) by simp
  from poll_attempts_skip [OF d assms(3) le] obtain w' fss where
    run: "poll_attempts u h m d 0 w = poll_attempts u h m d (0 + int ?n) w'"
    and len: "length fss = ?n"
    and tr: "trace w' = trace w @ attempt_events (GET u h) d fss"
    by blast
  have "\<not> 0 + int ?n < m" using assms(1) by simp
  then have res: "poll_attempts u h m d 0 w = (w', Inr PNone)"
    using run by (simp add: poll_attempts_exhausted)
  have new: "new_events w w' = attempt_events (GET u h) d fss"
    using tr by (rule new_events_append)
  have gets: "get_calls (new_events w w') = replicate ?n (GET u h)"
    by (simp add: new get_calls_attempt_events len)
  have total: "delays (new_events w w') = replicate ?n d"
    by (simp add: new delays_attempt_events len)
  show ?thesis
    using gets total by (simp add: res)
qed


section \<open>Facts about the submission calls and main\<close>

lemma initiate_reply:
  assumes "\<And>req. remote w (sent w) req = Inr r"
  shows "\<exists>u h p. initiate_ftd_onboarding_using_ztp base_url token device_name serial_number
                access_policy_uuid admin_password w
           = (emit (Request (POST u h p)) w,
              if status_code r \<noteq> 202
              then Inl (CDOError (''Failed to create ZTP request: '' @ resp_text r))
              else resp_json r)"
  using assms
  by (auto simp: initiate_ftd_onboarding_using_ztp_def requests_post_def Let_def)

lemma delete_reply:
  assumes "\<And>req. remote w (sent w) req = Inr r"
  shows "\<exists>u h p. delete_ftd_device base_url token device_uuid w
           = (emit (Request (POST u h p)) w,
              if status_code r \<noteq> 202
              then Inl (CDOError (''Failed to delete FTD device: '' @ resp_text r))
              else resp_json r)"
  using assms
  by (auto simp: delete_ftd_device_def requests_post_def Let_def)

lemma start_operation_accepted:
  assumes "\<And>req. remote w (sent w) req = Inr r" and "status_code r = 202"
  shows "\<exists>fs u h p. start_operation a w = (emit (Request (POST u h p)) (py_print fs w), resp_json r)"
proof -
  have reply: "\<And>fs req. remote (py_print fs w) (sent (py_print fs w)) req = Inr r"
    using assms(1) by (simp add: remote_py_print sent_py_print)
  show ?thesis
  proof (cases "args_operation a = Some ''onboard''")
    case True
    from initiate_reply [OF reply] assms(2) True show ?thesis
      unfolding start_operation_def by (simp del: append.simps) blast
  next
    case False
    from delete_reply [OF reply] assms(2) False show ?thesis
      unfolding start_operation_def by (simp del: append.simps) blast
  qed
qed

lemma main_no_polling_url:
  assumes "args_operation a = Some opn" and "opn \<noteq> []"
    and "start_operation a w = (w1, Inr body)"
    and "py_get body ''transactionPollingUrl'' = Inr v" and "\<not> truthy v"
  shows "main_try a w = (py_print [Lit ''Initial response: '', Val body] w1,
                         Inl (CDOError ''No polling URL in response''))"
    and "main a w = (py_print [Lit ''Error: '', Exn (CDOError ''No polling URL in response'')]
                       (py_print [Lit ''Initial response: '', Val body] w1), 1)"
proof -
  show tried: "main_try a w = (py_print [Lit ''Initial response: '', Val body] w1,
                         Inl (CDOError ''No polling URL in response''))"
    using assms(3,4,5) by (simp add: main_try_def Let_def)
  show "main a w = (py_print [Lit ''Error: '', Exn (CDOError ''No polling URL in response'')]
                       (py_print [Lit ''Initial response: '', Val body] w1), 1)"
    using assms(1,2) by (simp add: main_def tried)
qed

lemma no_polling_url_run:
  assumes "args_operation a = Some opn" and "opn \<noteq> []"
    and "\<And>req. remote w (sent w) req = Inr r" and "status_code r = 202"
    and "resp_json r = Inr body"
    and "py_get body ''transactionPollingUrl'' = Inr v" and "\<not> truthy v"
  shows "snd (main_try a w) = Inl (CDOError ''No polling URL in response'')
       \<and> get_calls (new_events w (fst (main a w))) = []
       \<and> snd (main a w) = 1"
proof -
  from start_operation_accepted [OF assms(3,4), of a] obtain fs u h p where
    "start_operation a w = (emit (Request (POST u h p)) (py_print fs w), resp_json r)"
    by blast
  then have start: "start_operation a w = (emit (Request (POST u h p)) (py_print fs w), Inr body)"
    by (simp add: assms(5))
  note run = main_no_polling_url [OF assms(1,2) start assms(6,7)]
  have "new_events w (fst (main a w)) =
          [Print fs, Request (POST u h p), Print [Lit ''Initial response: '', Val body],
           Print [Lit ''Error: '', Exn (CDOError ''No polling URL in response'')]]"
    by (simp add: run(2) new_events_def trace_py_print trace_emit)
  then show ?thesis
    by (simp add: run)
qed

lemma poll_transaction_status_bad_status:
  assumes "0 < m" and "remote w (sent w) (poll_request u t) = Inr r"
    and "status_code r \<notin> {200, 202}"
  shows "snd (poll_transaction_status u t m d w)
           = Inl (CDOError (''Failed to poll status: '' @ resp_text r @ '' code: '' @ str_int (status_code r)))"
  using poll_attempts_bad_status [OF assms(1) assms(2) [unfolded poll_request_def] assms(3), of d]
  unfolding poll_transaction_status_def Let_def
  by simp

lemma poll_transaction_status_request_fails:
  assumes "0 < m" and "remote w (sent w) (poll_request u t) = Inl e"
  shows "snd (poll_transaction_status u t m d w) = Inl e"
  using poll_attempts_request_fails [OF assms(1) assms(2) [unfolded poll_request_def], of d]
  unfolding poll_transaction_status_def Let_def
  by simp

lemma start_operation_rejected:
  assumes "\<And>req. remote w (sent w) req = Inr r" and "status_code r \<noteq> 202"
  shows "\<exists>w1 msg. start_operation a w = (w1, Inl (CDOError msg))"
proof -
  have reply: "\<And>fs req. remote (py_print fs w) (sent (py_print fs w)) req = Inr r"
    using assms(1) by (simp add: remote_py_print sent_py_print)
  show ?thesis
  proof (cases "args_operation a = Some ''onboard''")
    case True
    from initiate_reply [OF reply] assms(2) True show ?thesis
      unfolding start_operation_def by (simp del: append.simps) blast
  next
    case False
    from delete_reply [OF reply] assms(2) False show ?thesis
      unfolding start_operation_def by (simp del: append.simps) blast
  qed
qed

lemma start_operation_unreachable:
  assumes "\<And>req. remote w (sent w) req = Inl e"
  shows "\<exists>w1. start_operation a w = (w1, Inl e)"
proof -
  have reply: "\<And>fs req. remote (py_print fs w) (sent (py_print fs w)) req = Inl e"
    using assms by (simp add: remote_py_print sent_py_print)
  show ?thesis
    by (simp add: start_operation_def initiate_ftd_onboarding_using_ztp_def delete_ftd_device_def
        requests_post_def Let_def reply)
qed

lemma main_exit_by_stage:
  "snd (main a w) =
     (if args_operation a = None \<or> args_operation a = Some [] then 1
      else case start_operation a w of
             (w1, Inl e) \<Rightarrow> 1
           | (w1, Inr ack) \<Rightarrow>
               (case py_get ack ''transactionPollingUrl'' of
                  Inl e \<Rightarrow> 1
                | Inr polling_url \<Rightarrow>
                    if \<not> truthy polling_url then 1
                    else (case snd (poll_transaction_status polling_url (args_token a)
                                      (args_max_attempts a) (args_delay a) (polling_start ack w1)) of
                            Inl e \<Rightarrow> 1
                          | Inr final_status \<Rightarrow> 0)))"
  by (auto simp: main_def main_try_def polling_start_def Let_def
      split: option.splits prod.splits sum.splits exn.splits)

lemma main_timeout:
  assumes "args_operation a = Some opn" and "opn \<noteq> []"
    and "start_operation a w = (w1, Inr ack)"
    and "py_get ack ''transactionPollingUrl'' = Inr polling_url" and "truthy polling_url"
    and "poll_transaction_status polling_url (args_token a) (args_max_attempts a) (args_delay a)
           (polling_start ack w1) = (w4, Inr PNone)"
  shows "main a w = (py_print [Lit ''Polling timed out''] w4, 0)"
  using assms by (simp add: main_def main_try_def polling_start_def Let_def)

lemma main_poll_raises:
  assumes "args_operation a = Some opn" and "opn \<noteq> []"
    and "start_operation a w = (w1, Inr ack)"
    and "py_get ack ''transactionPollingUrl'' = Inr polling_url" and "truthy polling_url"
    and "snd (poll_transaction_status polling_url (args_token a) (args_max_attempts a) (args_delay a)
           (polling_start ack w1)) = Inl e"
  shows "snd (main a w) = 1"
  using assms by (simp add: main_exit_by_stage)

section \<open>Facts about the example worlds\<close>


lemma terminal_status_reply:
  "terminal (status_reply s) = (s = ''DONE'' \<or> s = ''ERROR'')"
  by (simp add: terminal_def status_reply_def json_reply_def)

lemma sent_always: "sent (always reply) = 0"
  by (simp add: sent_def always_def)



section \<open>The claims\<close>

text \<open>
  C8. The polling function of \<^verbatim>\<open>poll_service.py\<close> and the one of \<^verbatim>\<open>ftd.py\<close> are
  extensionally equal: for every polling URL, token, attempt budget, delay and world
  (that is, every sequence of replies) they end in the same world, so with the same
  GET calls, the same delays and the same printed lines, and with the same outcome:
  the same returned body, the same raised exception or the same None.
\<close>

theorem poll_implementations_equal:
  "poll_service_poll_transaction_status polling_url token max_attempts delay_seconds w =
   poll_transaction_status polling_url token max_attempts delay_seconds w"
  by (simp add: poll_service_poll_transaction_status_def poll_transaction_status_def poll_service_eq)

text \<open>
  C10. The poller terminates on every input, and it runs its loop at most
  \<^verbatim>\<open>max_attempts\<close> times. Termination is the termination proof of \<open>poll_attempts\<close>
  above (the measure is the number of attempts left), so the function below is total.
  Whatever the replies are, a call issues at most \<open>nat max_attempts\<close> GET requests and
  sleeps at most as often; when \<^verbatim>\<open>max_attempts\<close> is zero or negative it returns None
  at once and leaves the world as it found it: no GET, no delay.
\<close>

theorem poll_bounded:
  "length (get_calls (new_events w (fst (poll_transaction_status polling_url token max_attempts delay_seconds w))))
     \<le> nat max_attempts
   \<and> length (delays (new_events w (fst (poll_transaction_status polling_url token max_attempts delay_seconds w))))
     \<le> nat max_attempts
   \<and> (max_attempts \<le> 0 \<longrightarrow>
        poll_transaction_status polling_url token max_attempts delay_seconds w = (w, Inr PNone))"
proof -
  let ?h = "[(''Authorization'', ''Bearer '' @ token), (''Content-Type'', ''application/json'')]"
  from poll_attempts_bound [of max_attempts 0 "nat max_attempts" polling_url ?h delay_seconds w]
  obtain es where
    "trace (fst (poll_attempts polling_url ?h max_attempts delay_seconds 0 w)) = trace w @ es"
    "length (get_calls es) \<le> nat max_attempts" "length (delays es) \<le> nat max_attempts"
    by auto
  then have "length (get_calls (new_events w (fst (poll_transaction_status polling_url token max_attempts delay_seconds w)))) \<le> nat max_attempts"
    and "length (delays (new_events w (fst (poll_transaction_status polling_url token max_attempts delay_seconds w)))) \<le> nat max_attempts"
    by (simp_all add: poll_transaction_status_loop new_events_append)
  moreover have "max_attempts \<le> 0 \<longrightarrow>
        poll_transaction_status polling_url token max_attempts delay_seconds w = (w, Inr PNone)"
    by (simp add: poll_transaction_status_loop poll_attempts_exhausted)
  ultimately show ?thesis by blast
qed

theorem poll_bounded_witness:
  "(0::int) \<le> 0
   \<and> poll_transaction_status (PStr ''https://x/status/1'') ''tok'' 0 10 (scripted [status_reply ''DONE''])
       = (scripted [status_reply ''DONE''], Inr PNone)
   \<and> (-3::int) \<le> 0
   \<and> poll_transaction_status (PStr ''https://x/status/1'') ''tok'' (-3) 10 (scripted [status_reply ''DONE''])
       = (scripted [status_reply ''DONE''], Inr PNone)"
  using poll_bounded [of "scripted [status_reply ''DONE'']" "PStr ''https://x/status/1''" "''tok''" 0 10]
    poll_bounded [of "scripted [status_reply ''DONE'']" "PStr ''https://x/status/1''" "''tok''" "-3" 10]
  by simp

text \<open>
  C1. The claim is that a run in which all of the first \<^verbatim>\<open>max_attempts\<close> replies are
  non-terminal returns None after exactly \<^verbatim>\<open>max_attempts\<close> GET requests and exactly
  \<^verbatim>\<open>max_attempts - 1\<close> delays. The code returns None after \<^verbatim>\<open>max_attempts\<close> GET
  requests, but it sleeps after every non-terminal attempt, the last one included, so
  there is one delay more than the claim counts: with \<^verbatim>\<open>max_attempts = 3\<close>,
  \<^verbatim>\<open>delay_seconds = 10\<close> and the status RUNNING in every reply, the run makes three
  GET requests and then sleeps a third time before it returns None. The docstring of
  the function calls \<^verbatim>\<open>delay_seconds\<close> the delay between polling attempts.
\<close>

theorem poll_timeout_sleeps_after_last_attempt:
  "snd (poll_transaction_status (PStr ''https://x/status/1'') ''tok'' 3 10 (always (status_reply ''RUNNING'')))
     = Inr PNone
   \<and> get_calls (new_events (always (status_reply ''RUNNING''))
        (fst (poll_transaction_status (PStr ''https://x/status/1'') ''tok'' 3 10 (always (status_reply ''RUNNING'')))))
     = [poll_request (PStr ''https://x/status/1'') ''tok'', poll_request (PStr ''https://x/status/1'') ''tok'',
        poll_request (PStr ''https://x/status/1'') ''tok'']
   \<and> delays (new_events (always (status_reply ''RUNNING''))
        (fst (poll_transaction_status (PStr ''https://x/status/1'') ''tok'' 3 10 (always (status_reply ''RUNNING'')))))
     = [10, 10, 10]"
  by (simp add: always_def poll_transaction_status_def poll_request_def poll_attempts.simps new_events_def
      requests_get_def time_sleep_def status_reply_def json_reply_def py_print_def emit_def sent_def Let_def)

text \<open>
  The same for every budget: when \<^verbatim>\<open>max_attempts\<close> \<open>\<ge> 1\<close>, the delay is a length that
  \<^verbatim>\<open>time.sleep\<close> accepts and the first \<^verbatim>\<open>max_attempts\<close> replies are non-terminal, the
  run returns None after \<^verbatim>\<open>max_attempts\<close> GET requests and \<^verbatim>\<open>max_attempts\<close> sleeps.
\<close>

lemma poll_timeout_run:
  assumes "1 \<le> max_attempts" and "0 \<le> delay_seconds \<and> delay_seconds \<le> 9223372036"
    and "\<forall>i<nat max_attempts. non_terminal (remote w (sent w + i) (poll_request polling_url token))"
  shows "snd (poll_transaction_status polling_url token max_attempts delay_seconds w) = Inr PNone
       \<and> get_calls (new_events w (fst (poll_transaction_status polling_url token max_attempts delay_seconds w)))
           = replicate (nat max_attempts) (poll_request polling_url token)
       \<and> delays (new_events w (fst (poll_transaction_status polling_url token max_attempts delay_seconds w)))
           = replicate (nat max_attempts) delay_seconds"
  using attempts_timeout [OF assms(1,2) assms(3) [unfolded poll_request_def]]
  unfolding poll_transaction_status_def poll_request_def Let_def
  by blast




text \<open>
  C3. In every iteration of the polling loop, in every world: when the reply to the GET
  is a response whose status code is neither 200 nor 202, the poller raises CDOError
  at once; the message carries the raw body and the status code; and the GET is the
  only thing the iteration added to the trace, so no further attempt, no print and no
  delay follows that response.
\<close>

theorem poll_raises_on_bad_status:
  assumes "attempt < max_attempts"
    and "remote w (sent w) (GET polling_url headers) = Inr r"
    and "status_code r \<notin> {200, 202}"
  shows "snd (poll_attempts polling_url headers max_attempts delay_seconds attempt w)
           = Inl (CDOError (''Failed to poll status: '' @ resp_text r @ '' code: '' @ str_int (status_code r)))
       \<and> new_events w (fst (poll_attempts polling_url headers max_attempts delay_seconds attempt w))
           = [Request (GET polling_url headers)]"
  by (simp add: poll_attempts_bad_status [OF assms] new_events_def trace_emit)

theorem poll_raises_on_bad_status_witness:
  "(404::int) \<notin> {200, 202}
   \<and> snd (poll_transaction_status (PStr ''https://x/status/1'') ''tok'' 300 10
       (always (Inr \<lparr>status_code = 404, resp_text = ''Not Found'', resp_json = Inl (OtherException ''not JSON'')\<rparr>)))
     = Inl (CDOError ''Failed to poll status: Not Found code: 404'')
   \<and> new_events (always (Inr \<lparr>status_code = 404, resp_text = ''Not Found'', resp_json = Inl (OtherException ''not JSON'')\<rparr>))
       (fst (poll_transaction_status (PStr ''https://x/status/1'') ''tok'' 300 10
       (always (Inr \<lparr>status_code = 404, resp_text = ''Not Found'', resp_json = Inl (OtherException ''not JSON'')\<rparr>))))
     = [Request (poll_request (PStr ''https://x/status/1'') ''tok'')]"
proof -
  let ?r = "\<lparr>status_code = 404, resp_text = ''Not Found'', resp_json = Inl (OtherException ''not JSON'')\<rparr>"
  let ?h = "[(''Authorization'', ''Bearer '' @ ''tok''), (''Content-Type'', ''application/json'')]"
  have h1: "(0::int) < 300" by simp
  have h2: "remote (always (Inr ?r)) (sent (always (Inr ?r))) (GET (PStr ''https://x/status/1'') ?h) = Inr ?r"
    by (simp add: always_def)
  have h3: "status_code ?r \<notin> {200, 202}" by simp
  show ?thesis
    using poll_raises_on_bad_status [OF h1 h2 h3, of 10]
    by (simp add: poll_transaction_status_def poll_request_def str_int_def str_nat.simps)
qed



text \<open>
  C4. Start Onboarding and Start Deletion check the acknowledgement in the same way.
  For every response the POST can get: when its status code differs from 202, each of
  the two functions raises CDOError and the message is a fixed prefix followed by the
  raw body text of the response; when the status code is exactly 202, each returns
  what \<^verbatim>\<open>response.json()\<close> gives, the parsed JSON body.
\<close>

theorem submission_status_check:
  assumes "\<And>req. remote w (sent w) req = Inr r"
  shows "(status_code r \<noteq> 202 \<longrightarrow>
            snd (initiate_ftd_onboarding_using_ztp base_url token device_name serial_number
                   access_policy_uuid admin_password w)
              = Inl (CDOError (''Failed to create ZTP request: '' @ resp_text r))
          \<and> snd (delete_ftd_device base_url token device_uuid w)
              = Inl (CDOError (''Failed to delete FTD device: '' @ resp_text r)))
       \<and> (status_code r = 202 \<longrightarrow>
            snd (initiate_ftd_onboarding_using_ztp base_url token device_name serial_number
                   access_policy_uuid admin_password w) = resp_json r
          \<and> snd (delete_ftd_device base_url token device_uuid w) = resp_json r)"
proof -
  from initiate_reply [OF assms, of base_url token device_name serial_number access_policy_uuid admin_password]
  have i: "snd (initiate_ftd_onboarding_using_ztp base_url token device_name serial_number
                   access_policy_uuid admin_password w)
           = (if status_code r \<noteq> 202
              then Inl (CDOError (''Failed to create ZTP request: '' @ resp_text r))
              else resp_json r)"
    by auto
  from delete_reply [OF assms, of base_url token device_uuid]
  have d: "snd (delete_ftd_device base_url token device_uuid w)
           = (if status_code r \<noteq> 202
              then Inl (CDOError (''Failed to delete FTD device: '' @ resp_text r))
              else resp_json r)"
    by auto
  show ?thesis
    by (simp add: i d)
qed

theorem submission_status_check_witness:
  "(500::int) \<noteq> 202
   \<and> snd (initiate_ftd_onboarding_using_ztp ''https://edge.staging.cdo.cisco.com'' ''tok'' ''fw1'' ''ABC123''
            ''pol-1'' []
            (always (Inr \<lparr>status_code = 500, resp_text = ''Internal Server Error'',
                            resp_json = Inl (OtherException ''not JSON'')\<rparr>)))
       = Inl (CDOError ''Failed to create ZTP request: Internal Server Error'')
   \<and> snd (delete_ftd_device ''https://edge.staging.cdo.cisco.com'' ''tok'' ''dev-1''
            (always (Inr \<lparr>status_code = 500, resp_text = ''Internal Server Error'',
                            resp_json = Inl (OtherException ''not JSON'')\<rparr>)))
       = Inl (CDOError ''Failed to delete FTD device: Internal Server Error'')
   \<and> snd (initiate_ftd_onboarding_using_ztp ''https://edge.staging.cdo.cisco.com'' ''tok'' ''fw1'' ''ABC123''
            ''pol-1'' []
            (always (json_reply 202 (PDict [(''transactionPollingUrl'', PStr ''https://x/status/1'')]))))
       = Inr (PDict [(''transactionPollingUrl'', PStr ''https://x/status/1'')])
   \<and> snd (delete_ftd_device ''https://edge.staging.cdo.cisco.com'' ''tok'' ''dev-1''
            (always (json_reply 202 (PDict [(''transactionPollingUrl'', PStr ''https://x/status/1'')]))))
       = Inr (PDict [(''transactionPollingUrl'', PStr ''https://x/status/1'')])"
proof -
  let ?bad = "\<lparr>status_code = 500, resp_text = ''Internal Server Error'',
                resp_json = Inl (OtherException ''not JSON'')\<rparr>"
  let ?ok = "\<lparr>status_code = 202, resp_text = ''(json)'',
               resp_json = Inr (PDict [(''transactionPollingUrl'', PStr ''https://x/status/1'')])\<rparr>"
  have b: "\<And>req. remote (always (Inr ?bad)) (sent (always (Inr ?bad))) req = Inr ?bad"
    by (simp add: always_def)
  have k: "\<And>req. remote (always (json_reply 202 (PDict [(''transactionPollingUrl'', PStr ''https://x/status/1'')])))
              (sent (always (json_reply 202 (PDict [(''transactionPollingUrl'', PStr ''https://x/status/1'')])))) req
            = Inr ?ok"
    by (simp add: always_def json_reply_def)
  show ?thesis
    using submission_status_check [OF b, of "''https://edge.staging.cdo.cisco.com''" "''tok''" "''fw1''"
        "''ABC123''" "''pol-1''" "[]" "''dev-1''"]
      submission_status_check [OF k, of "''https://edge.staging.cdo.cisco.com''" "''tok''" "''fw1''"
        "''ABC123''" "''pol-1''" "[]" "''dev-1''"]
    by simp
qed

text \<open>
  C5. When a subcommand is run and the acknowledgement is a 202 response whose JSON
  object has no \<^verbatim>\<open>transactionPollingUrl\<close> field, \<^verbatim>\<open>main\<close> raises CDOError with the
  message "No polling URL in response", no GET request is issued in the whole run, and
  the process exits with code 1.
\<close>

theorem missing_polling_url_is_fatal:
  assumes "args_operation a = Some opn" and "opn \<noteq> []"
    and "\<And>req. remote w (sent w) req = Inr r" and "status_code r = 202"
    and "resp_json r = Inr (PDict kvs)"
    and "map_of kvs ''transactionPollingUrl'' = None"
  shows "snd (main_try a w) = Inl (CDOError ''No polling URL in response'')
       \<and> get_calls (new_events w (fst (main a w))) = []
       \<and> snd (main a w) = 1"
proof -
  have get: "py_get (PDict kvs) ''transactionPollingUrl'' = Inr PNone"
    using assms(6) by simp
  have falsy: "\<not> truthy PNone" by simp
  from no_polling_url_run [OF assms(1,2,3,4,5) get falsy] show ?thesis .
qed

theorem missing_polling_url_is_fatal_witness:
  "snd (main_try onboard_args (always (json_reply 202 (PDict []))))
     = Inl (CDOError ''No polling URL in response'')
   \<and> get_calls (new_events (always (json_reply 202 (PDict [])))
        (fst (main onboard_args (always (json_reply 202 (PDict [])))))) = []
   \<and> snd (main onboard_args (always (json_reply 202 (PDict [])))) = 1"
proof -
  let ?w = "always (json_reply 202 (PDict []))"
  let ?r = "\<lparr>status_code = 202, resp_text = ''(json)'', resp_json = Inr (PDict [])\<rparr>"
  have h1: "args_operation onboard_args = Some ''onboard''" and h2: "''onboard'' \<noteq> []"
    by (simp_all add: onboard_args_def)
  have h3: "\<And>req. remote ?w (sent ?w) req = Inr ?r"
    by (simp add: always_def json_reply_def)
  have h4: "status_code ?r = 202" and h5: "resp_json ?r = Inr (PDict [])"
    and h6: "map_of ([] :: (string \<times> pyval) list) ''transactionPollingUrl'' = None"
    by simp_all
  from missing_polling_url_is_fatal [OF h1 h2 h3 h4 h5 h6] show ?thesis .
qed

text \<open>
  C9. The check on the polling URL is a truth test, not a test for the field: when the
  acknowledgement is a 202 response whose \<^verbatim>\<open>transactionPollingUrl\<close> is the empty string,
  \<^verbatim>\<open>main\<close> does what it does for an absent field: it raises CDOError with the message
  "No polling URL in response", issues no GET request and exits with code 1.
\<close>

theorem empty_polling_url_is_fatal:
  assumes "args_operation a = Some opn" and "opn \<noteq> []"
    and "\<And>req. remote w (sent w) req = Inr r" and "status_code r = 202"
    and "resp_json r = Inr (PDict kvs)"
    and "map_of kvs ''transactionPollingUrl'' = Some (PStr [])"
  shows "snd (main_try a w) = Inl (CDOError ''No polling URL in response'')
       \<and> get_calls (new_events w (fst (main a w))) = []
       \<and> snd (main a w) = 1"
proof -
  have get: "py_get (PDict kvs) ''transactionPollingUrl'' = Inr (PStr [])"
    using assms(6) by simp
  have falsy: "\<not> truthy (PStr [])" by simp
  from no_polling_url_run [OF assms(1,2,3,4,5) get falsy] show ?thesis .
qed

theorem empty_polling_url_is_fatal_witness:
  "snd (main_try delete_args (always (json_reply 202 (PDict [(''transactionPollingUrl'', PStr [])]))))
     = Inl (CDOError ''No polling URL in response'')
   \<and> get_calls (new_events (always (json_reply 202 (PDict [(''transactionPollingUrl'', PStr [])])))
        (fst (main delete_args (always (json_reply 202 (PDict [(''transactionPollingUrl'', PStr [])])))))) = []
   \<and> snd (main delete_args (always (json_reply 202 (PDict [(''transactionPollingUrl'', PStr [])])))) = 1"
proof -
  let ?w = "always (json_reply 202 (PDict [(''transactionPollingUrl'', PStr [])]))"
  let ?r = "\<lparr>status_code = 202, resp_text = ''(json)'',
              resp_json = Inr (PDict [(''transactionPollingUrl'', PStr [])])\<rparr>"
  have h1: "args_operation delete_args = Some ''delete''" and h2: "''delete'' \<noteq> []"
    by (simp_all add: delete_args_def)
  have h3: "\<And>req. remote ?w (sent ?w) req = Inr ?r"
    by (simp add: always_def json_reply_def)
  have h4: "status_code ?r = 202"
    and h5: "resp_json ?r = Inr (PDict [(''transactionPollingUrl'', PStr [])])"
    and h6: "map_of [(''transactionPollingUrl'', PStr [])] ''transactionPollingUrl'' = Some (PStr [])"
    by simp_all
  from empty_polling_url_is_fatal [OF h1 h2 h3 h4 h5 h6] show ?thesis .
qed

text \<open>
  C7 (as amended). Once \<^verbatim>\<open>parse_arguments\<close> has returned the parsed command line, the
  exit code of the process is 1 when no subcommand was given (\<^verbatim>\<open>main\<close> exits before
  any request) and when an exception is raised at any stage of the run: by the
  submission call (the CDOError of a refused submission, an exception of the
  transport, any other), by reading the polling URL, by the missing or empty polling
  URL, or by the poller (the CDOError of a poll reply with a bad status code, an
  exception of the transport, any other). It is 0 otherwise, that is when the poller
  returns; when it returns None, \<^verbatim>\<open>main\<close> prints "Polling timed out" and the exit code
  is still 0. The first conjunct gives the exit code of every run from the outcome of
  each stage; the second is the timeout; the others follow a refused submission, a
  failed POST, a poll reply with a bad status code and a failed GET through to the
  exit code. The claim left out the case of no subcommand, where the exit code is 1
  although none of the listed errors has occurred.
\<close>

theorem main_exit_code:
  "snd (main a w) =
     (if args_operation a = None \<or> args_operation a = Some [] then 1
      else case start_operation a w of
             (w1, Inl e) \<Rightarrow> 1
           | (w1, Inr ack) \<Rightarrow>
               (case py_get ack ''transactionPollingUrl'' of
                  Inl e \<Rightarrow> 1
                | Inr polling_url \<Rightarrow>
                    if \<not> truthy polling_url then 1
                    else (case snd (poll_transaction_status polling_url (args_token a)
                                      (args_max_attempts a) (args_delay a) (polling_start ack w1)) of
                            Inl e \<Rightarrow> 1
                          | Inr final_status \<Rightarrow> 0)))
   \<and> (\<forall>opn w1 ack polling_url w4.
         args_operation a = Some opn \<and> opn \<noteq> []
         \<and> start_operation a w = (w1, Inr ack)
         \<and> py_get ack ''transactionPollingUrl'' = Inr polling_url \<and> truthy polling_url
         \<and> poll_transaction_status polling_url (args_token a) (args_max_attempts a) (args_delay a)
             (polling_start ack w1) = (w4, Inr PNone)
         \<longrightarrow> main a w = (py_print [Lit ''Polling timed out''] w4, 0))
   \<and> (\<forall>opn r.
         args_operation a = Some opn \<and> opn \<noteq> []
         \<and> (\<forall>req. remote w (sent w) req = Inr r) \<and> status_code r \<noteq> 202
         \<longrightarrow> snd (main a w) = 1)
   \<and> (\<forall>opn e.
         args_operation a = Some opn \<and> opn \<noteq> []
         \<and> (\<forall>req. remote w (sent w) req = Inl e)
         \<longrightarrow> snd (main a w) = 1)
   \<and> (\<forall>opn w1 ack polling_url r.
         args_operation a = Some opn \<and> opn \<noteq> []
         \<and> start_operation a w = (w1, Inr ack)
         \<and> py_get ack ''transactionPollingUrl'' = Inr polling_url \<and> truthy polling_url
         \<and> 0 < args_max_attempts a
         \<and> remote (polling_start ack w1) (sent (polling_start ack w1))
               (poll_request polling_url (args_token a)) = Inr r
         \<and> status_code r \<notin> {200, 202}
         \<longrightarrow> snd (main a w) = 1)
   \<and> (\<forall>opn w1 ack polling_url e.
         args_operation a = Some opn \<and> opn \<noteq> []
         \<and> start_operation a w = (w1, Inr ack)
         \<and> py_get ack ''transactionPollingUrl'' = Inr polling_url \<and> truthy polling_url
         \<and> 0 < args_max_attempts a
         \<and> remote (polling_start ack w1) (sent (polling_start ack w1))
               (poll_request polling_url (args_token a)) = Inl e
         \<longrightarrow> snd (main a w) = 1)"
proof (intro conjI allI impI)
  show "snd (main a w) =
     (if args_operation a = None \<or> args_operation a = Some [] then 1
      else case start_operation a w of
             (w1, Inl e) \<Rightarrow> 1
           | (w1, Inr ack) \<Rightarrow>
               (case py_get ack ''transactionPollingUrl'' of
                  Inl e \<Rightarrow> 1
                | Inr polling_url \<Rightarrow>
                    if \<not> truthy polling_url then 1
                    else (case snd (poll_transaction_status polling_url (args_token a)
                                      (args_max_attempts a) (args_delay a) (polling_start ack w1)) of
                            Inl e \<Rightarrow> 1
                          | Inr final_status \<Rightarrow> 0)))"
    by (rule main_exit_by_stage)
next
  fix opn w1 ack polling_url w4
  assume "args_operation a = Some opn \<and> opn \<noteq> []
         \<and> start_operation a w = (w1, Inr ack)
         \<and> py_get ack ''transactionPollingUrl'' = Inr polling_url \<and> truthy polling_url
         \<and> poll_transaction_status polling_url (args_token a) (args_max_attempts a) (args_delay a)
             (polling_start ack w1) = (w4, Inr PNone)"
  then show "main a w = (py_print [Lit ''Polling timed out''] w4, 0)"
    using main_timeout by blast
next
  fix opn r
  assume h: "args_operation a = Some opn \<and> opn \<noteq> []
         \<and> (\<forall>req. remote w (sent w) req = Inr r) \<and> status_code r \<noteq> 202"
  then have "\<And>req. remote w (sent w) req = Inr r" and "status_code r \<noteq> 202"
    by simp_all
  from start_operation_rejected [OF this, of a] obtain w1 msg where
    "start_operation a w = (w1, Inl (CDOError msg))"
    by blast
  with h show "snd (main a w) = 1"
    by (simp add: main_exit_by_stage)
next
  fix opn e
  assume h: "args_operation a = Some opn \<and> opn \<noteq> []
         \<and> (\<forall>req. remote w (sent w) req = Inl e)"
  then have "\<And>req. remote w (sent w) req = Inl e"
    by simp
  from start_operation_unreachable [OF this, of a] obtain w1 where
    "start_operation a w = (w1, Inl e)"
    by blast
  with h show "snd (main a w) = 1"
    by (simp add: main_exit_by_stage)
next
  fix opn w1 ack polling_url r
  assume h: "args_operation a = Some opn \<and> opn \<noteq> []
         \<and> start_operation a w = (w1, Inr ack)
         \<and> py_get ack ''transactionPollingUrl'' = Inr polling_url \<and> truthy polling_url
         \<and> 0 < args_max_attempts a
         \<and> remote (polling_start ack w1) (sent (polling_start ack w1))
               (poll_request polling_url (args_token a)) = Inr r
         \<and> status_code r \<notin> {200, 202}"
  then have lt: "0 < args_max_attempts a"
    and reply: "remote (polling_start ack w1) (sent (polling_start ack w1))
               (poll_request polling_url (args_token a)) = Inr r"
    and bad: "status_code r \<notin> {200, 202}"
    by simp_all
  note poll_transaction_status_bad_status [OF lt reply bad, of "args_delay a"]
  with h show "snd (main a w) = 1"
    using main_poll_raises by blast
next
  fix opn w1 ack polling_url e
  assume h: "args_operation a = Some opn \<and> opn \<noteq> []
         \<and> start_operation a w = (w1, Inr ack)
         \<and> py_get ack ''transactionPollingUrl'' = Inr polling_url \<and> truthy polling_url
         \<and> 0 < args_max_attempts a
         \<and> remote (polling_start ack w1) (sent (polling_start ack w1))
               (poll_request polling_url (args_token a)) = Inl e"
  then have lt: "0 < args_max_attempts a"
    and reply: "remote (polling_start ack w1) (sent (polling_start ack w1))
               (poll_request polling_url (args_token a)) = Inl e"
    by simp_all
  note poll_transaction_status_request_fails [OF lt reply, of "args_delay a"]
  with h show "snd (main a w) = 1"
    using main_poll_raises by blast
qed

theorem main_exit_code_witness:
  "snd (main (onboard_args\<lparr>args_max_attempts := 2\<rparr>)
         (scripted [json_reply 202 (PDict [(''transactionPollingUrl'', PStr ''https://x/status/1'')]),
                    status_reply ''RUNNING'', status_reply ''RUNNING''])) = 0
   \<and> last (trace (fst (main (onboard_args\<lparr>args_max_attempts := 2\<rparr>)
         (scripted [json_reply 202 (PDict [(''transactionPollingUrl'', PStr ''https://x/status/1'')]),
                    status_reply ''RUNNING'', status_reply ''RUNNING''])))) = Print [Lit ''Polling timed out'']
   \<and> snd (main onboard_args
         (scripted [json_reply 202 (PDict [(''transactionPollingUrl'', PStr ''https://x/status/1'')]),
                    status_reply ''RUNNING'', status_reply ''DONE''])) = 0
   \<and> snd (main delete_args (always (Inr \<lparr>status_code = 500, resp_text = ''Internal Server Error'',
                            resp_json = Inl (OtherException ''not JSON'')\<rparr>))) = 1
   \<and> snd (main onboard_args (always (Inl (RequestException ''connection refused'')))) = 1
   \<and> snd (main onboard_args
         (scripted [json_reply 202 (PDict [(''transactionPollingUrl'', PStr ''https://x/status/1'')]),
                    Inr \<lparr>status_code = 500, resp_text = ''Internal Server Error'',
                         resp_json = Inl (OtherException ''not JSON'')\<rparr>])) = 1
   \<and> snd (main onboard_args
         (scripted [json_reply 202 (PDict [(''transactionPollingUrl'', PStr ''https://x/status/1'')])])) = 1"
  using main_exit_code [of "onboard_args\<lparr>args_max_attempts := 2\<rparr>"
         "scripted [json_reply 202 (PDict [(''transactionPollingUrl'', PStr ''https://x/status/1'')]),
                    status_reply ''RUNNING'', status_reply ''RUNNING'']", THEN conjunct1]
    main_exit_code [of onboard_args
         "scripted [json_reply 202 (PDict [(''transactionPollingUrl'', PStr ''https://x/status/1'')]),
                    status_reply ''RUNNING'', status_reply ''DONE'']", THEN conjunct1]
    main_exit_code [of delete_args "always (Inr \<lparr>status_code = 500, resp_text = ''Internal Server Error'',
                            resp_json = Inl (OtherException ''not JSON'')\<rparr>)", THEN conjunct1]
    main_exit_code [of onboard_args "always (Inl (RequestException ''connection refused''))", THEN conjunct1]
    main_exit_code [of onboard_args
         "scripted [json_reply 202 (PDict [(''transactionPollingUrl'', PStr ''https://x/status/1'')]),
                    Inr \<lparr>status_code = 500, resp_text = ''Internal Server Error'',
                         resp_json = Inl (OtherException ''not JSON'')\<rparr>]", THEN conjunct1]
    main_exit_code [of onboard_args
         "scripted [json_reply 202 (PDict [(''transactionPollingUrl'', PStr ''https://x/status/1'')])]",
         THEN conjunct1]
  by (simp add: main_def main_try_def start_operation_def initiate_ftd_onboarding_using_ztp_def
      delete_ftd_device_def requests_post_def poll_transaction_status_def poll_attempts.simps
      requests_get_def time_sleep_def py_print_def emit_def sent_def scripted_def always_def
      json_reply_def status_reply_def onboard_args_def delete_args_def polling_start_def Let_def)

theorem main_exit_code_counterexample:
  "args_operation (onboard_args\<lparr>args_operation := None\<rparr>) = None
   \<and> snd (main (onboard_args\<lparr>args_operation := None\<rparr>) (always (json_reply 202 (PDict [])))) = 1
   \<and> trace (fst (main (onboard_args\<lparr>args_operation := None\<rparr>) (always (json_reply 202 (PDict [])))))
       = [Print [Lit ''Error: No operation specified. Use --help for usage information.'']]"
  by (simp add: main_def py_print_def emit_def always_def)

end
